theory Spec2Isabelle
  imports Main
begin

section \<open>Preferences manager (src/PreferencesManager.cpp)\<close>

text \<open>
  The manager owns one \<^verbatim>\<open>QSettings\<close> object, a persistent dictionary from key strings to
  \<^verbatim>\<open>QVariant\<close> values. Only the variant kinds that the manager stores or that the installer
  writes are modelled: the invalid variant (the value of a missing key), booleans, strings and
  byte arrays. Strings and byte arrays are both lists of \<^typ>\<open>char\<close>.
\<close>

datatype QVariant = Invalid | VBool bool | VString string | VByteArray string

type_synonym QSettings = "string \<rightharpoonup> QVariant"

record PreferencesManager =
  settings :: QSettings

definition kKeyGeometry :: string where
  "kKeyGeometry = ''Geometry''"

definition kKeyAppExePath :: string where
  "kKeyAppExePath = ''AppExePath''"

definition kKeyPlaySoundOnCombo :: string where
  "kKeyPlaySoundOnCombo = ''PlaySoundOnCombo''"

definition kKeyAutoStartAtLogin :: string where
  "kKeyAutoStartAtLogin = ''AutoStartAtLogin''"

definition kDefaultValuePlaySoundOnCombo :: bool where
  "kDefaultValuePlaySoundOnCombo = True"

definition kDefaultvalueAutoStartAtLogin :: bool where
  "kDefaultvalueAutoStartAtLogin = False"

subsection \<open>The operations of QSettings and QVariant the manager calls\<close>

text \<open>
  These belong to the Qt library, not to the repository; they are written after the Qt
  documentation. \<^verbatim>\<open>value(key)\<close> gives the invalid variant for a missing key,
  \<^verbatim>\<open>value(key, def)\<close> gives \<^verbatim>\<open>def\<close> there.
\<close>

definition contains :: "QSettings \<Rightarrow> string \<Rightarrow> bool" where
  "contains st key = (case st key of None \<Rightarrow> False | Some v \<Rightarrow> True)"

definition valueOr :: "QSettings \<Rightarrow> string \<Rightarrow> QVariant \<Rightarrow> QVariant" where
  "valueOr st key defaultValue = (case st key of None \<Rightarrow> defaultValue | Some v \<Rightarrow> v)"

definition setValue :: "QSettings \<Rightarrow> string \<Rightarrow> QVariant \<Rightarrow> QSettings" where
  "setValue st key v = st(key \<mapsto> v)"

definition toLowerChar :: "char \<Rightarrow> char" where
  "toLowerChar c =
     (let n = (of_char c :: nat) in if 65 \<le> n \<and> n \<le> 90 then char_of (n + 32) else c)"

fun toString :: "QVariant \<Rightarrow> string" where
  "toString Invalid = ''''"
| "toString (VBool b) = (if b then ''true'' else ''false'')"
| "toString (VString s) = s"
| "toString (VByteArray b) = b"

fun toByteArray :: "QVariant \<Rightarrow> string" where
  "toByteArray Invalid = ''''"
| "toByteArray (VBool b) = (if b then ''true'' else ''false'')"
| "toByteArray (VString s) = s"
| "toByteArray (VByteArray b) = b"

text \<open>
  \<^verbatim>\<open>qvariant_cast<bool>\<close>: a boolean is itself; a string or a byte array is true unless its
  lower-case content is empty, \<^verbatim>\<open>0\<close> or \<^verbatim>\<open>false\<close>; the invalid variant is false.
\<close>

definition textToBool :: "string \<Rightarrow> bool" where
  "textToBool s =
     (let l = map toLowerChar s in \<not> (l = '''' \<or> l = ''0'' \<or> l = ''false''))"

fun qvariant_cast_bool :: "QVariant \<Rightarrow> bool" where
  "qvariant_cast_bool Invalid = False"
| "qvariant_cast_bool (VBool b) = b"
| "qvariant_cast_bool (VString s) = textToBool s"
| "qvariant_cast_bool (VByteArray b) = textToBool b"

text \<open>
  \<^verbatim>\<open>QDir::fromNativeSeparators\<close> depends on the platform the program is built for, so the
  getter below takes it as a parameter. On Windows, the platform of the installer that
  writes the key, it replaces every backslash by a forward slash.
\<close>

definition fromNativeSeparatorsWindows :: "string \<Rightarrow> string" where
  "fromNativeSeparatorsWindows pathName =
     map (\<lambda>c. if c = CHR 0x5C then CHR ''/'' else c) pathName"

subsection \<open>The manager's methods\<close>

definition setMainWindowGeometry :: "string \<Rightarrow> PreferencesManager \<Rightarrow> PreferencesManager" where
  "setMainWindowGeometry array pm =
     pm\<lparr>settings := setValue (settings pm) kKeyGeometry (VByteArray array)\<rparr>"

definition mainWindowGeometry :: "PreferencesManager \<Rightarrow> string" where
  "mainWindowGeometry pm = toByteArray (valueOr (settings pm) kKeyGeometry Invalid)"

definition setAutoStartAtLogin :: "bool \<Rightarrow> PreferencesManager \<Rightarrow> PreferencesManager" where
  "setAutoStartAtLogin v pm =
     pm\<lparr>settings := setValue (settings pm) kKeyAutoStartAtLogin (VBool v)\<rparr>"

definition getAutoStartAtLogin :: "PreferencesManager \<Rightarrow> bool" where
  "getAutoStartAtLogin pm =
     qvariant_cast_bool
       (valueOr (settings pm) kKeyAutoStartAtLogin (VBool kDefaultvalueAutoStartAtLogin))"

definition setPlaySoundOnCombo :: "bool \<Rightarrow> PreferencesManager \<Rightarrow> PreferencesManager" where
  "setPlaySoundOnCombo v pm =
     pm\<lparr>settings := setValue (settings pm) kKeyPlaySoundOnCombo (VBool v)\<rparr>"

definition getPlaySoundOnCombo :: "PreferencesManager \<Rightarrow> bool" where
  "getPlaySoundOnCombo pm =
     qvariant_cast_bool
       (valueOr (settings pm) kKeyPlaySoundOnCombo (VBool kDefaultValuePlaySoundOnCombo))"

definition reset :: "PreferencesManager \<Rightarrow> PreferencesManager" where
  "reset pm =
     setAutoStartAtLogin kDefaultvalueAutoStartAtLogin
       (setPlaySoundOnCombo kDefaultValuePlaySoundOnCombo pm)"

text \<open>
  The getter is a \<^verbatim>\<open>const\<close> method: it takes the manager and gives back a string only, so
  the store after the call is the store before it.
\<close>

definition getInstalledApplicationPath ::
  "(string \<Rightarrow> string) \<Rightarrow> PreferencesManager \<Rightarrow> string" where
  "getInstalledApplicationPath fromNativeSeparators pm =
     (if \<not> contains (settings pm) kKeyAppExePath then ''''
      else fromNativeSeparators (toString (valueOr (settings pm) kKeyAppExePath Invalid)))"

section \<open>Combo table frame (src/Combo/ComboTableFrame.cpp)\<close>

text \<open>
  The frame works on the combo list owned by the combo manager, on the selection of the
  table view and on the filter/sort proxy between the two. A combo record is a value of
  the type variable \<open>'c\<close>: the frame never looks inside one. Indexes are \<^verbatim>\<open>qint32\<close> in the
  source and \<^typ>\<open>int\<close> here; the frame does no arithmetic on them, and a list is taken to
  hold fewer than \<open>2 ^ 31\<close> records.

  What the frame does to the outside world is kept in a log of events, in the order of the
  calls: running the combo dialog, asking the confirmation question, saving the combo list to
  file, and showing the critical message box.
\<close>

datatype DialogCode = Rejected | Accepted

datatype StandardButton = Yes | No

datatype failure = AssertionFailed | IndexOutOfRange

datatype 'c event =
    ComboDialogExec 'c
  | Question string string
  | SaveComboListToFile "'c list"
  | Critical string string

record 'c ComboTableFrame =
  comboList :: "'c list"
  selectedRows :: "int list"
  mapToSourceRow :: "int \<Rightarrow> int"
  events :: "'c event list"

text \<open>
  \<open>selectedRows\<close> is \<^verbatim>\<open>ui_.tableComboList->selectionModel()->selectedRows()\<close>, each model index
  given by its display row; \<open>mapToSourceRow\<close> is \<^verbatim>\<open>proxyModel_.mapToSource(modelIndex).row()\<close>,
  which is \<open>-1\<close> for an index the proxy does not know.

  The collaborators of the frame are not among the sources. Those whose answer is an input
  of an operation are parameters: the record a fresh combo starts as, the copy made of a
  combo, the run of the modal dialog (its result code, and the record as the dialog leaves
  it behind the shared handle), the answer to the confirmation question, the outcome of
  saving (success flag and error message), and what marking does to an edited record.
\<close>

record 'c collaborators =
  create :: "'c"
  duplicate :: "'c \<Rightarrow> 'c"
  dlgExec :: "'c \<Rightarrow> DialogCode \<times> 'c"
  question :: "string \<Rightarrow> string \<Rightarrow> StandardButton"
  saveComboListToFile :: "'c list \<Rightarrow> bool \<times> string"
  markEdited :: "'c \<Rightarrow> 'c"

subsection \<open>The combo list\<close>

text \<open>
  Modelled from the spec: \<^verbatim>\<open>ComboList::append\<close>, whose definition is not among the sources.
  The spec has the record appended to the ordered list, as its new last record.
\<close>

definition append :: "'c list \<Rightarrow> 'c \<Rightarrow> 'c list" where
  "append cl combo = cl @ [combo]"

text \<open>
  Modelled from the spec: \<^verbatim>\<open>ComboList::erase\<close>, whose definition is not among the sources.
  The spec names \<^verbatim>\<open>erase(index)\<close> on an ordered, index-addressable list in which later
  entries shift down. It gives no meaning to an index outside the list; that call is a
  failure here.
\<close>

definition erase :: "int \<Rightarrow> 'c list \<Rightarrow> failure + 'c list" where
  "erase index cl =
     (if 0 \<le> index \<and> index < int (length cl)
      then Inr (take (nat index) cl @ drop (Suc (nat index)) cl)
      else Inl IndexOutOfRange)"

text \<open>
  Modelled from the spec: \<^verbatim>\<open>ComboList::markComboAsEdited\<close>, whose definition is not among the
  sources. The spec has it mark the record at the index as edited; what the mark is, is the
  parameter \<open>mark\<close>. No other record and no position changes.
\<close>

definition markComboAsEdited :: "('c \<Rightarrow> 'c) \<Rightarrow> int \<Rightarrow> 'c list \<Rightarrow> 'c list" where
  "markComboAsEdited mark index cl =
     (if 0 \<le> index \<and> index < int (length cl)
      then cl[nat index := mark (cl ! nat index)]
      else cl)"

subsection \<open>Selection\<close>

definition getSelectedComboCount :: "'c ComboTableFrame \<Rightarrow> int" where
  "getSelectedComboCount fr = int (length (selectedRows fr))"

text \<open>The loop over the selected rows, with \<open>result\<close> the list built so far.\<close>

fun collectIndexes :: "'c list \<Rightarrow> (int \<Rightarrow> int) \<Rightarrow> int list \<Rightarrow> int list \<Rightarrow> int list" where
  "collectIndexes cl toSource [] result = result"
| "collectIndexes cl toSource (modelIndex # rest) result =
     (let index = toSource modelIndex
      in if index \<ge> 0 \<and> index < int (length cl)
         then collectIndexes cl toSource rest (result @ [index])
         else collectIndexes cl toSource rest result)"

definition getSelectedComboIndexes :: "'c ComboTableFrame \<Rightarrow> int list" where
  "getSelectedComboIndexes fr =
     collectIndexes (comboList fr) (mapToSourceRow fr) (selectedRows fr) []"

subsection \<open>Helpers of the actions\<close>

definition logEvent :: "'c event \<Rightarrow> 'c ComboTableFrame \<Rightarrow> 'c ComboTableFrame" where
  "logEvent e fr = fr\<lparr>events := events fr @ [e]\<rparr>"

text \<open>
  The tail shared by add, delete and edit: save the list, and show the critical message box
  with the error message when saving reports failure. Nothing is undone.
\<close>

definition saveAndReport :: "'c collaborators \<Rightarrow> 'c ComboTableFrame \<Rightarrow> 'c ComboTableFrame" where
  "saveAndReport env fr =
     (let (ok, errorMessage) = saveComboListToFile env (comboList fr);
          fr1 = logEvent (SaveComboListToFile (comboList fr)) fr
      in if \<not> ok then logEvent (Critical ''Error'' errorMessage) fr1 else fr1)"

text \<open>
  \<^verbatim>\<open>std::sort\<close> with a comparator. The standard fixes the result, not the algorithm: a
  permutation ordered by the comparator, which for a strict total order on integers is one
  list only. Insertion sort computes it.
\<close>

fun insertBy :: "(int \<Rightarrow> int \<Rightarrow> bool) \<Rightarrow> int \<Rightarrow> int list \<Rightarrow> int list" where
  "insertBy cmp x [] = [x]"
| "insertBy cmp x (y # ys) = (if cmp x y then x # y # ys else y # insertBy cmp x ys)"

definition std_sort :: "(int \<Rightarrow> int \<Rightarrow> bool) \<Rightarrow> int list \<Rightarrow> int list" where
  "std_sort cmp xs = foldr (insertBy cmp) xs []"

text \<open>The loop of the delete action: one \<^verbatim>\<open>erase\<close> per index, in the order of the list.\<close>

fun eraseEach :: "int list \<Rightarrow> 'c list \<Rightarrow> failure + 'c list" where
  "eraseEach [] cl = Inr cl"
| "eraseEach (index # rest) cl =
     (case erase index cl of Inl e \<Rightarrow> Inl e | Inr cl' \<Rightarrow> eraseEach rest cl')"

subsection \<open>The actions\<close>

definition onActionAddCombo :: "'c collaborators \<Rightarrow> 'c ComboTableFrame \<Rightarrow> 'c ComboTableFrame" where
  "onActionAddCombo env fr =
     (let combo = create env;
          (code, combo') = dlgExec env combo;
          fr1 = logEvent (ComboDialogExec combo) fr
      in if Accepted \<noteq> code then fr1
         else saveAndReport env (fr1\<lparr>comboList := append (comboList fr1) combo'\<rparr>))"

text \<open>
  \<^verbatim>\<open>Q_ASSERT\<close> stops a debug build when its condition is false; that is the result
  \<open>Inl AssertionFailed\<close>.
\<close>

definition onActionDuplicateCombo ::
  "'c collaborators \<Rightarrow> 'c ComboTableFrame \<Rightarrow> failure + 'c ComboTableFrame" where
  "onActionDuplicateCombo env fr =
     (let selectedIndex = getSelectedComboIndexes fr
      in if 1 \<noteq> length selectedIndex then Inr fr
         else
           let cl = comboList fr;
               index = selectedIndex ! 0
           in if \<not> (index \<ge> 0 \<and> index < int (length cl)) then Inl AssertionFailed
              else
                let combo = duplicate env (cl ! nat index);
                    (code, combo') = dlgExec env combo;
                    fr1 = logEvent (ComboDialogExec combo) fr
                in if Accepted \<noteq> code then Inr fr1
                   else Inr (fr1\<lparr>comboList := append (comboList fr1) combo'\<rparr>))"

definition deleteQuestion :: "int \<Rightarrow> string" where
  "deleteQuestion count =
     (if count > 1 then ''Are you sure you want to delete the selected combos?''
      else ''Are you sure you want to delete the selected combo?'')"

definition onActionDeleteCombo ::
  "'c collaborators \<Rightarrow> 'c ComboTableFrame \<Rightarrow> failure + 'c ComboTableFrame" where
  "onActionDeleteCombo env fr =
     (let count = getSelectedComboCount fr
      in if count < 1 then Inr fr
         else
           let text = deleteQuestion count;
               answer = question env ''Delete Combo?'' text;
               fr1 = logEvent (Question ''Delete Combo?'' text) fr
           in if Yes \<noteq> answer then Inr fr1
              else
                let indexes = std_sort (\<lambda>first second. first > second)
                                (getSelectedComboIndexes fr1)
                in case eraseEach indexes (comboList fr1) of
                     Inl e \<Rightarrow> Inl e
                   | Inr cl' \<Rightarrow> Inr (saveAndReport env (fr1\<lparr>comboList := cl'\<rparr>)))"

text \<open>
  The edit dialog gets the handle of the record in the list, not a copy: what the dialog
  leaves in the record is in the list when \<^verbatim>\<open>exec\<close> returns, whatever the result code.
\<close>

definition onActionEditCombo ::
  "'c collaborators \<Rightarrow> 'c ComboTableFrame \<Rightarrow> failure + 'c ComboTableFrame" where
  "onActionEditCombo env fr =
     (let selectedIndex = getSelectedComboIndexes fr
      in if 1 \<noteq> length selectedIndex then Inr fr
         else
           let cl = comboList fr;
               index = selectedIndex ! 0
           in if \<not> (index \<ge> 0 \<and> index < int (length cl)) then Inl AssertionFailed
              else
                let combo = cl ! nat index;
                    (code, combo') = dlgExec env combo;
                    fr1 = logEvent (ComboDialogExec combo)
                            (fr\<lparr>comboList := cl[nat index := combo']\<rparr>)
                in if Accepted \<noteq> code then Inr fr1
                   else Inr (saveAndReport env
                          (fr1\<lparr>comboList :=
                             markComboAsEdited (markEdited env) index (comboList fr1)\<rparr>)))"

text \<open>
  The records at the given indexes taken out of a list, said without reference to any order
  of erasing: the records whose position is not among the indexes, in their order.
\<close>

definition withoutIndexes :: "int list \<Rightarrow> 'c list \<Rightarrow> 'c list" where
  "withoutIndexes indexes cl =
     map (\<lambda>i. cl ! i) (filter (\<lambda>i. int i \<notin> set indexes) [0..<length cl])"

section \<open>Concrete stores, frames and collaborators\<close>

text \<open>
  A store as the installer and a user could have left it, and a fresh one. The installed
  path is \<^verbatim>\<open>C:\Beeftext\Beeftext.exe\<close> in native form.
\<close>

definition usedPreferences :: PreferencesManager where
  "usedPreferences =
     \<lparr>settings =
        [kKeyGeometry \<mapsto> VByteArray ''geometry'',
         kKeyAppExePath \<mapsto>
           VString (''C:'' @ [CHR 0x5C] @ ''Beeftext'' @ [CHR 0x5C] @ ''Beeftext.exe''),
         kKeyPlaySoundOnCombo \<mapsto> VBool False,
         kKeyAutoStartAtLogin \<mapsto> VBool True]\<rparr>"

definition freshPreferences :: PreferencesManager where
  "freshPreferences = \<lparr>settings = Map.empty\<rparr>"

text \<open>
  A frame over four combos whose proxy sends display row \<open>r\<close> to source row \<open>2 * r - 1\<close>: rows
  1 and 2 are the records 1 and 3, rows 0 and 3 map outside the list. The collaborators
  answer as told: the dialog's result code, the answer to the question, and whether saving
  succeeds. An accepted dialog appends \<^verbatim>\<open>!\<close> to the record it edits.
\<close>

definition fourCombos :: "int list \<Rightarrow> string ComboTableFrame" where
  "fourCombos rows =
     \<lparr>comboList = [''a'', ''b'', ''c'', ''d''],
      selectedRows = rows,
      mapToSourceRow = (\<lambda>r. 2 * r - 1),
      events = []\<rparr>"

definition answering :: "DialogCode \<Rightarrow> StandardButton \<Rightarrow> bool \<Rightarrow> string collaborators" where
  "answering code answer ok =
     \<lparr>create = [],
      duplicate = (\<lambda>c. c @ ''2''),
      dlgExec = (\<lambda>c. (code, if code = Accepted then c @ ''!'' else c)),
      question = (\<lambda>title text. answer),
      saveComboListToFile = (\<lambda>cl. (ok, if ok then [] else ''disk full'')),
      markEdited = (\<lambda>c. c)\<rparr>"

section \<open>Selection, sorting and erasing\<close>

lemma collectIndexes_filter:
  "collectIndexes cl f rows acc =
     acc @ filter (\<lambda>i. 0 \<le> i \<and> i < int (length cl)) (map f rows)"
  by (induction rows arbitrary: acc) (simp_all add: Let_def)

lemma getSelectedComboIndexes_filter:
  "getSelectedComboIndexes fr =
     filter (\<lambda>i. 0 \<le> i \<and> i < int (length (comboList fr)))
       (map (mapToSourceRow fr) (selectedRows fr))"
  by (simp add: getSelectedComboIndexes_def collectIndexes_filter)

lemma getSelectedComboIndexes_range:
  "i \<in> set (getSelectedComboIndexes fr) \<Longrightarrow> 0 \<le> i \<and> i < int (length (comboList fr))"
  by (simp add: getSelectedComboIndexes_filter)

lemma set_insertBy: "set (insertBy cmp x ys) = insert x (set ys)"
  by (induction ys) auto

lemma set_std_sort: "set (std_sort cmp xs) = set xs"
  by (induction xs) (simp_all add: std_sort_def set_insertBy)

lemma length_insertBy: "length (insertBy cmp x ys) = Suc (length ys)"
  by (induction ys) auto

lemma length_std_sort: "length (std_sort cmp xs) = length xs"
  by (induction xs) (simp_all add: std_sort_def length_insertBy)

lemma insertBy_descending:
  "sorted_wrt (>) ys \<Longrightarrow> x \<notin> set ys \<Longrightarrow> sorted_wrt (>) (insertBy (\<lambda>first second. first > second) x ys)"
  by (induction ys) (auto simp: set_insertBy)

lemma std_sort_descending:
  "distinct xs \<Longrightarrow> sorted_wrt (>) (std_sort (\<lambda>first second. first > second) xs)"
proof (induction xs)
  case Nil
  then show ?case by (simp add: std_sort_def)
next
  case (Cons x xs)
  then have "sorted_wrt (>) (std_sort (\<lambda>first second. first > second) xs)" by simp
  moreover have "x \<notin> set (std_sort (\<lambda>first second. first > second) xs)"
    using Cons.prems by (simp add: set_std_sort)
  ultimately have "sorted_wrt (>) (insertBy (\<lambda>first second. first > second) x (std_sort (\<lambda>first second. first > second) xs))"
    by (rule insertBy_descending)
  then show ?case by (simp add: std_sort_def)
qed


lemma nths_map_filter: "nths xs A = map (\<lambda>i. xs ! i) (filter (\<lambda>i. i \<in> A) [0..<length xs])"
proof (induction xs rule: rev_induct)
  case Nil
  then show ?case by simp
next
  case (snoc x xs)
  have "map ((!) (xs @ [x])) (filter (\<lambda>i. i \<in> A) [0..<length xs]) =
        map ((!) xs) (filter (\<lambda>i. i \<in> A) [0..<length xs])"
    by (rule map_cong) (auto simp: nth_append)
  with snoc show ?case by (simp add: nths_append)
qed

lemma nths_everything: "nths xs UNIV = xs"
  by (simp add: nths_map_filter map_nth)

lemma nths_cong_range:
  "(\<And>i. i < length xs \<Longrightarrow> (i \<in> A) = (i \<in> B)) \<Longrightarrow> nths xs A = nths xs B"
  unfolding nths_map_filter
  by (rule arg_cong [where f = "map _"], rule filter_cong) auto

lemma nths_erase:
  assumes "d < length xs" and "\<And>s. s \<in> S \<Longrightarrow> s < d"
  shows "nths (take d xs @ drop (Suc d) xs) (- S) = nths xs (- insert d S)"
proof -
  have xs: "xs = take d xs @ xs ! d # drop (Suc d) xs"
    using assms(1) by (rule id_take_nth_drop)
  have len: "length (take d xs) = d" using assms(1) by simp
  have a: "nths (take d xs) (- S) = nths (take d xs) (- insert d S)"
    by (rule nths_cong_range) (use len in auto)
  have b: "{j. j + d \<in> - S} = UNIV" using assms(2) by fastforce
  have c: "{j. Suc j + d \<in> - insert d S} = UNIV" using assms(2) by fastforce
  have "nths (take d xs @ xs ! d # drop (Suc d) xs) (- insert d S) =
        nths (take d xs) (- insert d S) @
        nths (xs ! d # drop (Suc d) xs) {j. j + d \<in> - insert d S}"
    by (simp only: nths_append len)
  also have "nths (xs ! d # drop (Suc d) xs) {j. j + d \<in> - insert d S} = drop (Suc d) xs"
    using c by (simp add: nths_Cons nths_everything)
  finally have "nths (take d xs @ xs ! d # drop (Suc d) xs) (- insert d S) =
        nths (take d xs) (- insert d S) @ drop (Suc d) xs" .
  then have r: "nths xs (- insert d S) = nths (take d xs) (- insert d S) @ drop (Suc d) xs"
    using xs by simp
  have "nths (take d xs @ drop (Suc d) xs) (- S) =
        nths (take d xs) (- S) @ nths (drop (Suc d) xs) {j. j + d \<in> - S}"
    by (simp only: nths_append len)
  then have "nths (take d xs @ drop (Suc d) xs) (- S) = nths (take d xs) (- S) @ drop (Suc d) xs"
    by (simp only: b nths_everything)
  with a r show ?thesis by simp
qed

lemma eraseEach_descending:
  "sorted_wrt (>) ds \<Longrightarrow> (\<And>i. i \<in> set ds \<Longrightarrow> 0 \<le> i \<and> i < int (length cl)) \<Longrightarrow>
   eraseEach ds cl = Inr (nths cl (- (nat ` set ds)))"
proof (induction ds arbitrary: cl)
  case Nil
  then show ?case by (simp add: nths_everything)
next
  case (Cons d ds)
  let ?cl' = "take (nat d) cl @ drop (Suc (nat d)) cl"
  have d: "0 \<le> d" "d < int (length cl)" using Cons.prems(2) by auto
  have lt: "\<And>i. i \<in> set ds \<Longrightarrow> i < d" using Cons.prems(1) by auto
  have len: "length ?cl' = length cl - 1" using d by auto
  have "eraseEach ds ?cl' = Inr (nths ?cl' (- (nat ` set ds)))"
  proof (rule Cons.IH)
    show "sorted_wrt (>) ds" using Cons.prems(1) by simp
    fix i assume "i \<in> set ds"
    then have "0 \<le> i" "i < d" using Cons.prems(2) lt by auto
    then show "0 \<le> i \<and> i < int (length ?cl')" using d len by linarith
  qed
  moreover have "nths ?cl' (- (nat ` set ds)) = nths cl (- insert (nat d) (nat ` set ds))"
  proof (rule nths_erase)
    show "nat d < length cl" using d by simp
    fix s assume "s \<in> nat ` set ds"
    then obtain i where "i \<in> set ds" "s = nat i" by auto
    then show "s < nat d" using lt [of i] Cons.prems(2) [of i] by simp
  qed
  ultimately show ?case using d by (simp add: erase_def)
qed

lemma withoutIndexes_nths:
  "(\<And>i. i \<in> set indexes \<Longrightarrow> 0 \<le> i) \<Longrightarrow>
   withoutIndexes indexes cl = nths cl (- (nat ` set indexes))"
  unfolding withoutIndexes_def nths_map_filter
  by (rule arg_cong [where f = "map _"], rule filter_cong) (auto simp: image_iff)

lemma eraseEach_length:
  "eraseEach ds cl = Inr cl' \<Longrightarrow> length cl' + length ds = length cl"
  by (induction ds arbitrary: cl) (auto simp: erase_def split: if_splits sum.splits)

lemma eraseEach_selected:
  assumes "distinct (getSelectedComboIndexes fr)"
  shows "eraseEach (std_sort (\<lambda>first second. first > second) (getSelectedComboIndexes fr))
           (comboList fr) =
         Inr (withoutIndexes (getSelectedComboIndexes fr) (comboList fr))"
proof -
  let ?ix = "getSelectedComboIndexes fr"
  let ?ds = "std_sort (\<lambda>first second. first > second) ?ix"
  have "eraseEach ?ds (comboList fr) = Inr (nths (comboList fr) (- (nat ` set ?ds)))"
    by (rule eraseEach_descending)
       (use assms in \<open>auto simp: std_sort_descending set_std_sort dest: getSelectedComboIndexes_range\<close>)
  moreover have "withoutIndexes ?ix (comboList fr) = nths (comboList fr) (- (nat ` set ?ix))"
    by (rule withoutIndexes_nths) (auto dest: getSelectedComboIndexes_range)
  ultimately show ?thesis by (simp add: set_std_sort)
qed


subsection \<open>What each action does\<close>

lemma saveAndReport_comboList: "comboList (saveAndReport env fr) = comboList fr"
  by (simp add: saveAndReport_def logEvent_def Let_def case_prod_beta)

lemma saveAndReport_events:
  "events (saveAndReport env fr) =
     events fr @ SaveComboListToFile (comboList fr) #
       (if fst (saveComboListToFile env (comboList fr)) then []
        else [Critical ''Error'' (snd (saveComboListToFile env (comboList fr)))])"
  by (simp add: saveAndReport_def logEvent_def Let_def case_prod_beta)

lemma add_rejected:
  "fst (dlgExec env (create env)) = Rejected \<Longrightarrow>
   onActionAddCombo env fr = logEvent (ComboDialogExec (create env)) fr"
  by (simp add: onActionAddCombo_def Let_def case_prod_beta)

lemma add_accepted:
  "dlgExec env (create env) = (Accepted, c') \<Longrightarrow>
   onActionAddCombo env fr =
     saveAndReport env
       ((logEvent (ComboDialogExec (create env)) fr)\<lparr>comboList := comboList fr @ [c']\<rparr>)"
  by (simp add: onActionAddCombo_def Let_def append_def logEvent_def)

lemma selected_single_range:
  "getSelectedComboIndexes fr = [index] \<Longrightarrow> 0 \<le> index \<and> index < int (length (comboList fr))"
  using getSelectedComboIndexes_range [of index fr] by simp

lemma duplicate_rejected:
  "getSelectedComboIndexes fr = [index] \<Longrightarrow>
   fst (dlgExec env (duplicate env (comboList fr ! nat index))) = Rejected \<Longrightarrow>
   onActionDuplicateCombo env fr =
     Inr (logEvent (ComboDialogExec (duplicate env (comboList fr ! nat index))) fr)"
  using selected_single_range [of fr index]
  by (simp add: onActionDuplicateCombo_def Let_def case_prod_beta)

lemma duplicate_accepted:
  "getSelectedComboIndexes fr = [index] \<Longrightarrow>
   dlgExec env (duplicate env (comboList fr ! nat index)) = (Accepted, c') \<Longrightarrow>
   onActionDuplicateCombo env fr =
     Inr ((logEvent (ComboDialogExec (duplicate env (comboList fr ! nat index))) fr)
            \<lparr>comboList := comboList fr @ [c']\<rparr>)"
  using selected_single_range [of fr index]
  by (simp add: onActionDuplicateCombo_def Let_def append_def logEvent_def)

lemma duplicate_not_single:
  "length (getSelectedComboIndexes fr) \<noteq> 1 \<Longrightarrow> onActionDuplicateCombo env fr = Inr fr"
  by (simp add: onActionDuplicateCombo_def Let_def)

lemma edit_not_single:
  "length (getSelectedComboIndexes fr) \<noteq> 1 \<Longrightarrow> onActionEditCombo env fr = Inr fr"
  by (simp add: onActionEditCombo_def Let_def)

lemma edit_rejected:
  "getSelectedComboIndexes fr = [index] \<Longrightarrow>
   dlgExec env (comboList fr ! nat index) = (Rejected, c') \<Longrightarrow>
   onActionEditCombo env fr =
     Inr (logEvent (ComboDialogExec (comboList fr ! nat index))
            (fr\<lparr>comboList := (comboList fr)[nat index := c']\<rparr>))"
  using selected_single_range [of fr index]
  by (simp add: onActionEditCombo_def Let_def)

lemma edit_accepted:
  "getSelectedComboIndexes fr = [index] \<Longrightarrow>
   dlgExec env (comboList fr ! nat index) = (Accepted, c') \<Longrightarrow>
   onActionEditCombo env fr =
     Inr (saveAndReport env
            ((logEvent (ComboDialogExec (comboList fr ! nat index)) fr)
               \<lparr>comboList := (comboList fr)[nat index := markEdited env c']\<rparr>))"
  using selected_single_range [of fr index]
  by (simp add: onActionEditCombo_def Let_def markComboAsEdited_def logEvent_def nat_less_iff)

lemma delete_none_selected:
  "selectedRows fr = [] \<Longrightarrow> onActionDeleteCombo env fr = Inr fr"
  by (simp add: onActionDeleteCombo_def getSelectedComboCount_def Let_def)

lemma delete_declined:
  "selectedRows fr \<noteq> [] \<Longrightarrow>
   question env ''Delete Combo?'' (deleteQuestion (getSelectedComboCount fr)) = No \<Longrightarrow>
   onActionDeleteCombo env fr =
     Inr (logEvent (Question ''Delete Combo?'' (deleteQuestion (getSelectedComboCount fr))) fr)"
  by (simp add: onActionDeleteCombo_def getSelectedComboCount_def Let_def)

lemma getSelectedComboIndexes_logEvent:
  "getSelectedComboIndexes (logEvent e fr) = getSelectedComboIndexes fr"
  by (simp add: getSelectedComboIndexes_def logEvent_def)

lemma delete_confirmed:
  "selectedRows fr \<noteq> [] \<Longrightarrow>
   question env ''Delete Combo?'' (deleteQuestion (getSelectedComboCount fr)) = Yes \<Longrightarrow>
   eraseEach (std_sort (\<lambda>first second. first > second) (getSelectedComboIndexes fr))
     (comboList fr) = Inr cl' \<Longrightarrow>
   onActionDeleteCombo env fr =
     Inr (saveAndReport env
            ((logEvent (Question ''Delete Combo?'' (deleteQuestion (getSelectedComboCount fr))) fr)
               \<lparr>comboList := cl'\<rparr>))"
  by (simp add: onActionDeleteCombo_def getSelectedComboCount_def Let_def
        getSelectedComboIndexes_logEvent)
     (simp add: logEvent_def)

subsection \<open>Saving, the preference keys and the concrete frames\<close>

lemma saveAndReport_events_failed:
  "saveComboListToFile env (comboList fr) = (False, msg) \<Longrightarrow>
   events (saveAndReport env fr) =
     events fr @ [SaveComboListToFile (comboList fr), Critical ''Error'' msg]"
  by (simp add: saveAndReport_events)

lemma fourCombos_row2: "getSelectedComboIndexes (fourCombos [2]) = [3]"
  by (simp add: getSelectedComboIndexes_def fourCombos_def)

lemma fourCombos_sorted_erase:
  "eraseEach (std_sort (\<lambda>first second. first > second)
      (getSelectedComboIndexes (fourCombos [1, 2]))) (comboList (fourCombos [1, 2])) =
   Inr [''a'', ''c'']"
  by (simp add: getSelectedComboIndexes_def fourCombos_def std_sort_def erase_def)

lemma settings_reset:
  "settings (reset pm) =
     (settings pm)(kKeyPlaySoundOnCombo \<mapsto> VBool True, kKeyAutoStartAtLogin \<mapsto> VBool False)"
  by (simp add: reset_def setAutoStartAtLogin_def setPlaySoundOnCombo_def setValue_def
        kDefaultValuePlaySoundOnCombo_def kDefaultvalueAutoStartAtLogin_def)

lemma keys_distinct:
  "kKeyGeometry \<noteq> kKeyPlaySoundOnCombo" "kKeyGeometry \<noteq> kKeyAutoStartAtLogin"
  "kKeyAppExePath \<noteq> kKeyPlaySoundOnCombo" "kKeyAppExePath \<noteq> kKeyAutoStartAtLogin"
  "kKeyPlaySoundOnCombo \<noteq> kKeyAutoStartAtLogin" "kKeyGeometry \<noteq> kKeyAppExePath"
  by (simp_all add: kKeyGeometry_def kKeyAppExePath_def kKeyPlaySoundOnCombo_def
        kKeyAutoStartAtLogin_def)

section \<open>Claims\<close>

text \<open>
  Claim C1. In every state of the frame, every index that \<open>getSelectedComboIndexes\<close> returns
  is a source index of the combo list as it is at the call: at least 0 and below the size of
  the list. The result is the mapped selection with the rows that map outside that range
  left out, in the order of the selection.
\<close>

theorem getSelectedComboIndexes_valid:
  "(\<forall>i \<in> set (getSelectedComboIndexes fr). 0 \<le> i \<and> i < int (length (comboList fr))) \<and>
   getSelectedComboIndexes fr =
     filter (\<lambda>i. 0 \<le> i \<and> i < int (length (comboList fr)))
       (map (mapToSourceRow fr) (selectedRows fr))"
  using getSelectedComboIndexes_range [of _ fr] getSelectedComboIndexes_filter [of fr]
  by blast

theorem getSelectedComboIndexes_valid_witness:
  "map (mapToSourceRow (fourCombos [0, 1, 2, 3])) (selectedRows (fourCombos [0, 1, 2, 3])) =
     [-1, 1, 3, 5] \<and>
   length (comboList (fourCombos [0, 1, 2, 3])) = 4 \<and>
   getSelectedComboIndexes (fourCombos [0, 1, 2, 3]) = [1, 3]"
  using getSelectedComboIndexes_valid [of "fourCombos [0, 1, 2, 3]"]
  by (simp add: fourCombos_def)

text \<open>
  Claim C2. For every combo list and every set of selected source indexes (no index twice),
  a confirmed delete removes the records at those indexes and no other record: every
  \<open>erase\<close> of the descending sequence succeeds, and the list left is the old list without the
  records at the selected positions, shorter by the number of indexes.
\<close>

theorem delete_removes_exactly_selected:
  assumes "selectedRows fr \<noteq> []"
    and "question env ''Delete Combo?'' (deleteQuestion (getSelectedComboCount fr)) = Yes"
    and "distinct (getSelectedComboIndexes fr)"
  shows "\<exists>fr'. onActionDeleteCombo env fr = Inr fr' \<and>
           comboList fr' = withoutIndexes (getSelectedComboIndexes fr) (comboList fr) \<and>
           length (comboList fr') + length (getSelectedComboIndexes fr) = length (comboList fr)"
proof -
  let ?ds = "std_sort (\<lambda>first second. first > second) (getSelectedComboIndexes fr)"
  let ?cl' = "withoutIndexes (getSelectedComboIndexes fr) (comboList fr)"
  have e: "eraseEach ?ds (comboList fr) = Inr ?cl'"
    using assms(3) by (rule eraseEach_selected)
  have "length ?cl' + length ?ds = length (comboList fr)"
    using e by (rule eraseEach_length)
  then have "length ?cl' + length (getSelectedComboIndexes fr) = length (comboList fr)"
    by (simp add: length_std_sort)
  then show ?thesis
    using delete_confirmed [OF assms(1) assms(2) e] by (simp add: saveAndReport_comboList)
qed

theorem delete_removes_exactly_selected_witness:
  "selectedRows (fourCombos [2, 0, 1]) \<noteq> [] \<and>
   question (answering Accepted Yes True) ''Delete Combo?''
     (deleteQuestion (getSelectedComboCount (fourCombos [2, 0, 1]))) = Yes \<and>
   getSelectedComboIndexes (fourCombos [2, 0, 1]) = [3, 1] \<and>
   (\<exists>fr'. onActionDeleteCombo (answering Accepted Yes True) (fourCombos [2, 0, 1]) = Inr fr' \<and>
          comboList fr' = [''a'', ''c''])"
proof -
  have ix: "getSelectedComboIndexes (fourCombos [2, 0, 1]) = [3, 1]"
    by (simp add: getSelectedComboIndexes_def fourCombos_def)
  have w: "withoutIndexes [3, 1] (comboList (fourCombos [2, 0, 1])) = [''a'', ''c'']"
    by (simp add: withoutIndexes_def fourCombos_def upt_rec)
  have a: "selectedRows (fourCombos [2, 0, 1]) \<noteq> []" by (simp add: fourCombos_def)
  have b: "question (answering Accepted Yes True) ''Delete Combo?''
     (deleteQuestion (getSelectedComboCount (fourCombos [2, 0, 1]))) = Yes"
    by (simp add: answering_def)
  have c: "distinct (getSelectedComboIndexes (fourCombos [2, 0, 1]))" by (simp add: ix)
  show ?thesis
    using delete_removes_exactly_selected [OF a b c] a b ix w by auto
qed

text \<open>
  Claim C3. With exactly one selected record and the dialog accepted, duplicate makes the
  list one record longer: the list is the old list followed by the clone as the dialog left
  it. The old records are all in place, the selected one among them.
\<close>

theorem duplicate_appends_clone:
  assumes "getSelectedComboIndexes fr = [index]"
    and "dlgExec env (duplicate env (comboList fr ! nat index)) = (Accepted, c')"
  shows "\<exists>fr'. onActionDuplicateCombo env fr = Inr fr' \<and>
           length (comboList fr') = length (comboList fr) + 1 \<and>
           comboList fr' = comboList fr @ [c'] \<and>
           take (length (comboList fr)) (comboList fr') = comboList fr \<and>
           comboList fr' ! nat index = comboList fr ! nat index"
proof -
  have "nat index < length (comboList fr)"
    using selected_single_range [OF assms(1)] by (simp add: nat_less_iff)
  then show ?thesis
    using duplicate_accepted [OF assms] by (simp add: nth_append)
qed

theorem duplicate_appends_clone_witness:
  "getSelectedComboIndexes (fourCombos [2]) = [3] \<and>
   dlgExec (answering Accepted No True)
     (duplicate (answering Accepted No True) (comboList (fourCombos [2]) ! nat 3)) =
     (Accepted, ''d2!'') \<and>
   (\<exists>fr'. onActionDuplicateCombo (answering Accepted No True) (fourCombos [2]) = Inr fr' \<and>
          comboList fr' = [''a'', ''b'', ''c'', ''d'', ''d2!''])"
proof -
  have a: "getSelectedComboIndexes (fourCombos [2]) = [3]"
    by (simp add: getSelectedComboIndexes_def fourCombos_def)
  have b: "dlgExec (answering Accepted No True)
     (duplicate (answering Accepted No True) (comboList (fourCombos [2]) ! nat 3)) =
     (Accepted, ''d2!'')"
    by (simp add: answering_def fourCombos_def)
  show ?thesis
    using duplicate_appends_clone [OF a b] a b by (auto simp: fourCombos_def)
qed

text \<open>
  Claim C4. When the dialog is rejected, add and duplicate leave the combo list as it was and
  edit leaves its size as it was; when the confirmation is declined, delete leaves the list
  as it was. In each case the only thing the frame did was to show the dialog or ask the
  question: nothing is appended, erased, marked or saved. The record under edit is what the
  dialog left behind its handle, so the whole list is as before when a rejected dialog
  leaves the record alone.
\<close>

theorem rejected_dialog_no_mutation:
  "(fst (dlgExec env (create env)) = Rejected \<longrightarrow>
      comboList (onActionAddCombo env fr) = comboList fr \<and>
      length (comboList (onActionAddCombo env fr)) = length (comboList fr) \<and>
      events (onActionAddCombo env fr) = events fr @ [ComboDialogExec (create env)]) \<and>
   (getSelectedComboIndexes fr = [index] \<and>
    fst (dlgExec env (duplicate env (comboList fr ! nat index))) = Rejected \<longrightarrow>
      (\<exists>fr'. onActionDuplicateCombo env fr = Inr fr' \<and>
         comboList fr' = comboList fr \<and>
         length (comboList fr') = length (comboList fr) \<and>
         events fr' = events fr @ [ComboDialogExec (duplicate env (comboList fr ! nat index))])) \<and>
   (getSelectedComboIndexes fr = [index] \<and>
    dlgExec env (comboList fr ! nat index) = (Rejected, c') \<longrightarrow>
      (\<exists>fr'. onActionEditCombo env fr = Inr fr' \<and>
         comboList fr' = (comboList fr)[nat index := c'] \<and>
         (c' = comboList fr ! nat index \<longrightarrow> comboList fr' = comboList fr) \<and>
         length (comboList fr') = length (comboList fr) \<and>
         events fr' = events fr @ [ComboDialogExec (comboList fr ! nat index)])) \<and>
   (selectedRows fr \<noteq> [] \<and>
    question env ''Delete Combo?'' (deleteQuestion (getSelectedComboCount fr)) = No \<longrightarrow>
      (\<exists>fr'. onActionDeleteCombo env fr = Inr fr' \<and>
         comboList fr' = comboList fr \<and>
         length (comboList fr') = length (comboList fr) \<and>
         events fr' =
           events fr @ [Question ''Delete Combo?'' (deleteQuestion (getSelectedComboCount fr))]))"
proof (intro conjI impI)
  assume "fst (dlgExec env (create env)) = Rejected"
  then have a: "onActionAddCombo env fr = logEvent (ComboDialogExec (create env)) fr"
    by (rule add_rejected)
  show "comboList (onActionAddCombo env fr) = comboList fr"
    by (simp add: a logEvent_def)
  show "length (comboList (onActionAddCombo env fr)) = length (comboList fr)"
    by (simp add: a logEvent_def)
  show "events (onActionAddCombo env fr) = events fr @ [ComboDialogExec (create env)]"
    by (simp add: a logEvent_def)
next
  assume "getSelectedComboIndexes fr = [index] \<and>
    fst (dlgExec env (duplicate env (comboList fr ! nat index))) = Rejected"
  then have "onActionDuplicateCombo env fr =
     Inr (logEvent (ComboDialogExec (duplicate env (comboList fr ! nat index))) fr)"
    by (simp add: duplicate_rejected)
  then show "\<exists>fr'. onActionDuplicateCombo env fr = Inr fr' \<and>
         comboList fr' = comboList fr \<and>
         length (comboList fr') = length (comboList fr) \<and>
         events fr' = events fr @ [ComboDialogExec (duplicate env (comboList fr ! nat index))]"
    by (simp add: logEvent_def)
next
  assume "getSelectedComboIndexes fr = [index] \<and>
    dlgExec env (comboList fr ! nat index) = (Rejected, c')"
  then have "onActionEditCombo env fr =
     Inr (logEvent (ComboDialogExec (comboList fr ! nat index))
            (fr\<lparr>comboList := (comboList fr)[nat index := c']\<rparr>))"
    by (simp add: edit_rejected)
  then show "\<exists>fr'. onActionEditCombo env fr = Inr fr' \<and>
         comboList fr' = (comboList fr)[nat index := c'] \<and>
         (c' = comboList fr ! nat index \<longrightarrow> comboList fr' = comboList fr) \<and>
         length (comboList fr') = length (comboList fr) \<and>
         events fr' = events fr @ [ComboDialogExec (comboList fr ! nat index)]"
    by (simp add: logEvent_def)
next
  assume "selectedRows fr \<noteq> [] \<and>
    question env ''Delete Combo?'' (deleteQuestion (getSelectedComboCount fr)) = No"
  then have "onActionDeleteCombo env fr =
     Inr (logEvent (Question ''Delete Combo?'' (deleteQuestion (getSelectedComboCount fr))) fr)"
    by (simp add: delete_declined)
  then show "\<exists>fr'. onActionDeleteCombo env fr = Inr fr' \<and>
         comboList fr' = comboList fr \<and>
         length (comboList fr') = length (comboList fr) \<and>
         events fr' =
           events fr @ [Question ''Delete Combo?'' (deleteQuestion (getSelectedComboCount fr))]"
    by (simp add: logEvent_def)
qed

theorem rejected_dialog_no_mutation_witness:
  "fst (dlgExec (answering Rejected No True) (create (answering Rejected No True))) = Rejected \<and>
   getSelectedComboIndexes (fourCombos [2]) = [3] \<and>
   dlgExec (answering Rejected No True) (comboList (fourCombos [2]) ! nat 3) = (Rejected, ''d'') \<and>
   selectedRows (fourCombos [2]) \<noteq> [] \<and>
   question (answering Rejected No True) ''Delete Combo?''
     (deleteQuestion (getSelectedComboCount (fourCombos [2]))) = No \<and>
   comboList (onActionAddCombo (answering Rejected No True) (fourCombos [2])) =
     [''a'', ''b'', ''c'', ''d''] \<and>
   (\<exists>fr'. onActionDuplicateCombo (answering Rejected No True) (fourCombos [2]) = Inr fr' \<and>
      comboList fr' = [''a'', ''b'', ''c'', ''d'']) \<and>
   (\<exists>fr'. onActionEditCombo (answering Rejected No True) (fourCombos [2]) = Inr fr' \<and>
      comboList fr' = [''a'', ''b'', ''c'', ''d'']) \<and>
   (\<exists>fr'. onActionDeleteCombo (answering Rejected No True) (fourCombos [2]) = Inr fr' \<and>
      comboList fr' = [''a'', ''b'', ''c'', ''d''] \<and>
      events fr' =
        [Question ''Delete Combo?'' ''Are you sure you want to delete the selected combo?''])"
proof -
  have b: "dlgExec (answering Rejected No True) (comboList (fourCombos [2]) ! nat 3) =
      (Rejected, ''d'')"
    by (simp add: answering_def fourCombos_def)
  have c: "comboList (fourCombos [2]) = [''a'', ''b'', ''c'', ''d'']"
    by (simp add: fourCombos_def)
  have d: "selectedRows (fourCombos [2]) \<noteq> []" "events (fourCombos [2]) = []"
    by (simp_all add: fourCombos_def)
  have e: "question (answering Rejected No True) ''Delete Combo?''
     (deleteQuestion (getSelectedComboCount (fourCombos [2]))) = No"
    "fst (dlgExec (answering Rejected No True) (create (answering Rejected No True))) = Rejected"
    "fst (dlgExec (answering Rejected No True)
       (duplicate (answering Rejected No True) (comboList (fourCombos [2]) ! nat 3))) = Rejected"
    by (simp_all add: answering_def)
  have q: "deleteQuestion (getSelectedComboCount (fourCombos [2])) =
      ''Are you sure you want to delete the selected combo?''"
    by (simp add: deleteQuestion_def getSelectedComboCount_def fourCombos_def)
  show ?thesis
    using rejected_dialog_no_mutation
      [of "answering Rejected No True" "fourCombos [2]" 3 "''d''"]
      fourCombos_row2 b d e
    by (auto simp: c q)
qed

text \<open>
  Claim C5. When saving reports failure after an add, a delete or an edit, the combo list
  keeps the appended, erased or edited state; the action ends normally, having shown the
  critical message box with the error message of the save as its last step.
\<close>

theorem save_failure_keeps_mutation:
  "(dlgExec env (create env) = (Accepted, ca) \<and>
    saveComboListToFile env (comboList fr @ [ca]) = (False, msg) \<longrightarrow>
      comboList (onActionAddCombo env fr) = comboList fr @ [ca] \<and>
      events (onActionAddCombo env fr) =
        events fr @ [ComboDialogExec (create env),
                     SaveComboListToFile (comboList fr @ [ca]), Critical ''Error'' msg]) \<and>
   (selectedRows fr \<noteq> [] \<and>
    question env ''Delete Combo?'' (deleteQuestion (getSelectedComboCount fr)) = Yes \<and>
    eraseEach (std_sort (\<lambda>first second. first > second) (getSelectedComboIndexes fr))
      (comboList fr) = Inr cl' \<and>
    saveComboListToFile env cl' = (False, msg) \<longrightarrow>
      (\<exists>fr'. onActionDeleteCombo env fr = Inr fr' \<and>
         comboList fr' = cl' \<and>
         events fr' =
           events fr @ [Question ''Delete Combo?'' (deleteQuestion (getSelectedComboCount fr)),
                        SaveComboListToFile cl', Critical ''Error'' msg])) \<and>
   (getSelectedComboIndexes fr = [index] \<and>
    dlgExec env (comboList fr ! nat index) = (Accepted, ce) \<and>
    saveComboListToFile env ((comboList fr)[nat index := markEdited env ce]) = (False, msg) \<longrightarrow>
      (\<exists>fr'. onActionEditCombo env fr = Inr fr' \<and>
         comboList fr' = (comboList fr)[nat index := markEdited env ce] \<and>
         events fr' =
           events fr @ [ComboDialogExec (comboList fr ! nat index),
                        SaveComboListToFile ((comboList fr)[nat index := markEdited env ce]),
                        Critical ''Error'' msg]))"
proof (intro conjI impI)
  assume h: "dlgExec env (create env) = (Accepted, ca) \<and>
    saveComboListToFile env (comboList fr @ [ca]) = (False, msg)"
  let ?fr1 = "(logEvent (ComboDialogExec (create env)) fr)\<lparr>comboList := comboList fr @ [ca]\<rparr>"
  have a: "onActionAddCombo env fr = saveAndReport env ?fr1"
    using h by (simp add: add_accepted)
  show "comboList (onActionAddCombo env fr) = comboList fr @ [ca]"
    by (simp add: a saveAndReport_comboList)
  have "saveComboListToFile env (comboList ?fr1) = (False, msg)" using h by simp
  then have "events (saveAndReport env ?fr1) =
      events ?fr1 @ [SaveComboListToFile (comboList ?fr1), Critical ''Error'' msg]"
    by (rule saveAndReport_events_failed)
  then show "events (onActionAddCombo env fr) =
        events fr @ [ComboDialogExec (create env),
                     SaveComboListToFile (comboList fr @ [ca]), Critical ''Error'' msg]"
    by (simp add: a logEvent_def)
next
  assume h: "selectedRows fr \<noteq> [] \<and>
    question env ''Delete Combo?'' (deleteQuestion (getSelectedComboCount fr)) = Yes \<and>
    eraseEach (std_sort (\<lambda>first second. first > second) (getSelectedComboIndexes fr))
      (comboList fr) = Inr cl' \<and>
    saveComboListToFile env cl' = (False, msg)"
  let ?q = "Question ''Delete Combo?'' (deleteQuestion (getSelectedComboCount fr))"
  let ?fr1 = "(logEvent ?q fr)\<lparr>comboList := cl'\<rparr>"
  have a: "onActionDeleteCombo env fr = Inr (saveAndReport env ?fr1)"
    using h by (simp add: delete_confirmed)
  have "saveComboListToFile env (comboList ?fr1) = (False, msg)" using h by simp
  then have "events (saveAndReport env ?fr1) =
      events ?fr1 @ [SaveComboListToFile (comboList ?fr1), Critical ''Error'' msg]"
    by (rule saveAndReport_events_failed)
  then show "\<exists>fr'. onActionDeleteCombo env fr = Inr fr' \<and>
         comboList fr' = cl' \<and>
         events fr' = events fr @ [?q, SaveComboListToFile cl', Critical ''Error'' msg]"
    by (simp add: a saveAndReport_comboList logEvent_def)
next
  assume h: "getSelectedComboIndexes fr = [index] \<and>
    dlgExec env (comboList fr ! nat index) = (Accepted, ce) \<and>
    saveComboListToFile env ((comboList fr)[nat index := markEdited env ce]) = (False, msg)"
  let ?d = "ComboDialogExec (comboList fr ! nat index)"
  let ?cl = "(comboList fr)[nat index := markEdited env ce]"
  let ?fr1 = "(logEvent ?d fr)\<lparr>comboList := ?cl\<rparr>"
  have a: "onActionEditCombo env fr = Inr (saveAndReport env ?fr1)"
    using h by (simp add: edit_accepted)
  have "saveComboListToFile env (comboList ?fr1) = (False, msg)" using h by simp
  then have "events (saveAndReport env ?fr1) =
      events ?fr1 @ [SaveComboListToFile (comboList ?fr1), Critical ''Error'' msg]"
    by (rule saveAndReport_events_failed)
  then show "\<exists>fr'. onActionEditCombo env fr = Inr fr' \<and>
         comboList fr' = ?cl \<and>
         events fr' = events fr @ [?d, SaveComboListToFile ?cl, Critical ''Error'' msg]"
    by (simp add: a saveAndReport_comboList logEvent_def)
qed

theorem save_failure_keeps_mutation_witness:
  "dlgExec (answering Accepted Yes False) (create (answering Accepted Yes False)) =
     (Accepted, ''!'') \<and>
   saveComboListToFile (answering Accepted Yes False) [''a'', ''b'', ''c'', ''d'', ''!''] =
     (False, ''disk full'') \<and>
   getSelectedComboIndexes (fourCombos [1, 2]) = [1, 3] \<and>
   comboList (onActionAddCombo (answering Accepted Yes False) (fourCombos [1, 2])) =
     [''a'', ''b'', ''c'', ''d'', ''!''] \<and>
   (\<exists>fr'. onActionDeleteCombo (answering Accepted Yes False) (fourCombos [1, 2]) = Inr fr' \<and>
      comboList fr' = [''a'', ''c''] \<and>
      events fr' =
        [Question ''Delete Combo?'' ''Are you sure you want to delete the selected combos?'',
         SaveComboListToFile [''a'', ''c''], Critical ''Error'' ''disk full'']) \<and>
   (\<exists>fr'. onActionEditCombo (answering Accepted Yes False) (fourCombos [2]) = Inr fr' \<and>
      comboList fr' = [''a'', ''b'', ''c'', ''d!''] \<and>
      events fr' =
        [ComboDialogExec ''d'', SaveComboListToFile [''a'', ''b'', ''c'', ''d!''],
         Critical ''Error'' ''disk full''])"
proof -
  let ?env = "answering Accepted Yes False"
  have c: "comboList (fourCombos [1, 2]) = [''a'', ''b'', ''c'', ''d'']"
    "comboList (fourCombos [2]) = [''a'', ''b'', ''c'', ''d'']"
    "events (fourCombos [1, 2]) = []" "events (fourCombos [2]) = []"
    "selectedRows (fourCombos [1, 2]) \<noteq> []"
    by (simp_all add: fourCombos_def)
  have ix: "getSelectedComboIndexes (fourCombos [1, 2]) = [1, 3]"
    by (simp add: getSelectedComboIndexes_def fourCombos_def)
  have q: "deleteQuestion (getSelectedComboCount (fourCombos [1, 2])) =
      ''Are you sure you want to delete the selected combos?''"
    by (simp add: deleteQuestion_def getSelectedComboCount_def fourCombos_def)
  have e: "dlgExec ?env (create ?env) = (Accepted, ''!'')"
    "dlgExec ?env ''d'' = (Accepted, ''d!'')"
    "\<And>cl. saveComboListToFile ?env cl = (False, ''disk full'')"
    "\<And>t x. question ?env t x = Yes"
    "markEdited ?env ''d!'' = ''d!''"
    by (simp_all add: answering_def)
  have add: "comboList (onActionAddCombo ?env (fourCombos [1, 2])) =
      [''a'', ''b'', ''c'', ''d'', ''!'']"
    using save_failure_keeps_mutation
      [of ?env "''!''" "fourCombos [1, 2]" "''disk full''" "[''a'', ''c'']" 1 "''b''"]
    by (simp add: c e)
  have del: "\<exists>fr'. onActionDeleteCombo ?env (fourCombos [1, 2]) = Inr fr' \<and>
      comboList fr' = [''a'', ''c''] \<and>
      events fr' =
        [Question ''Delete Combo?'' ''Are you sure you want to delete the selected combos?'',
         SaveComboListToFile [''a'', ''c''], Critical ''Error'' ''disk full'']"
    using save_failure_keeps_mutation
      [of ?env "''!''" "fourCombos [1, 2]" "''disk full''" "[''a'', ''c'']" 1 "''b''"]
      fourCombos_sorted_erase
    by (simp add: c e q)
  have edit: "\<exists>fr'. onActionEditCombo ?env (fourCombos [2]) = Inr fr' \<and>
      comboList fr' = [''a'', ''b'', ''c'', ''d!''] \<and>
      events fr' =
        [ComboDialogExec ''d'', SaveComboListToFile [''a'', ''b'', ''c'', ''d!''],
         Critical ''Error'' ''disk full'']"
    using save_failure_keeps_mutation
      [of ?env "''!''" "fourCombos [2]" "''disk full''" "[''a'', ''c'']" 3 "''d!''"]
      fourCombos_row2
    by (simp add: c e)
  show ?thesis using add del edit ix e by simp
qed

text \<open>
  Claim C6. An accepted duplicate appends the clone and makes no call of the save operation:
  running the dialog is the only event of the action. An accepted add, a confirmed delete and
  an accepted edit each call the save operation, on the list as mutated.
\<close>

theorem duplicate_not_saved_others_saved:
  "(getSelectedComboIndexes fr = [index] \<and>
    dlgExec env (duplicate env (comboList fr ! nat index)) = (Accepted, cd) \<longrightarrow>
      (\<exists>fr'. onActionDuplicateCombo env fr = Inr fr' \<and>
         comboList fr' = comboList fr @ [cd] \<and>
         events fr' = events fr @ [ComboDialogExec (duplicate env (comboList fr ! nat index))] \<and>
         (\<forall>cl. SaveComboListToFile cl \<notin> set (drop (length (events fr)) (events fr'))))) \<and>
   (dlgExec env (create env) = (Accepted, ca) \<longrightarrow>
      comboList (onActionAddCombo env fr) = comboList fr @ [ca] \<and>
      SaveComboListToFile (comboList fr @ [ca]) \<in>
        set (drop (length (events fr)) (events (onActionAddCombo env fr)))) \<and>
   (selectedRows fr \<noteq> [] \<and>
    question env ''Delete Combo?'' (deleteQuestion (getSelectedComboCount fr)) = Yes \<and>
    eraseEach (std_sort (\<lambda>first second. first > second) (getSelectedComboIndexes fr))
      (comboList fr) = Inr cl' \<longrightarrow>
      (\<exists>fr'. onActionDeleteCombo env fr = Inr fr' \<and>
         comboList fr' = cl' \<and>
         SaveComboListToFile cl' \<in> set (drop (length (events fr)) (events fr')))) \<and>
   (getSelectedComboIndexes fr = [index] \<and>
    dlgExec env (comboList fr ! nat index) = (Accepted, ce) \<longrightarrow>
      (\<exists>fr'. onActionEditCombo env fr = Inr fr' \<and>
         comboList fr' = (comboList fr)[nat index := markEdited env ce] \<and>
         SaveComboListToFile ((comboList fr)[nat index := markEdited env ce]) \<in>
           set (drop (length (events fr)) (events fr'))))"
proof (intro conjI impI)
  assume "getSelectedComboIndexes fr = [index] \<and>
    dlgExec env (duplicate env (comboList fr ! nat index)) = (Accepted, cd)"
  then have "onActionDuplicateCombo env fr =
     Inr ((logEvent (ComboDialogExec (duplicate env (comboList fr ! nat index))) fr)
            \<lparr>comboList := comboList fr @ [cd]\<rparr>)"
    by (simp add: duplicate_accepted)
  then show "\<exists>fr'. onActionDuplicateCombo env fr = Inr fr' \<and>
         comboList fr' = comboList fr @ [cd] \<and>
         events fr' = events fr @ [ComboDialogExec (duplicate env (comboList fr ! nat index))] \<and>
         (\<forall>cl. SaveComboListToFile cl \<notin> set (drop (length (events fr)) (events fr')))"
    by (simp add: logEvent_def)
next
  assume h: "dlgExec env (create env) = (Accepted, ca)"
  let ?fr1 = "(logEvent (ComboDialogExec (create env)) fr)\<lparr>comboList := comboList fr @ [ca]\<rparr>"
  have a: "onActionAddCombo env fr = saveAndReport env ?fr1"
    using h by (rule add_accepted)
  show "comboList (onActionAddCombo env fr) = comboList fr @ [ca]"
    by (simp add: a saveAndReport_comboList)
  show "SaveComboListToFile (comboList fr @ [ca]) \<in>
        set (drop (length (events fr)) (events (onActionAddCombo env fr)))"
    by (simp add: a saveAndReport_events logEvent_def)
next
  assume h: "selectedRows fr \<noteq> [] \<and>
    question env ''Delete Combo?'' (deleteQuestion (getSelectedComboCount fr)) = Yes \<and>
    eraseEach (std_sort (\<lambda>first second. first > second) (getSelectedComboIndexes fr))
      (comboList fr) = Inr cl'"
  then have "onActionDeleteCombo env fr =
     Inr (saveAndReport env
            ((logEvent (Question ''Delete Combo?'' (deleteQuestion (getSelectedComboCount fr))) fr)
               \<lparr>comboList := cl'\<rparr>))"
    by (simp add: delete_confirmed)
  then show "\<exists>fr'. onActionDeleteCombo env fr = Inr fr' \<and>
         comboList fr' = cl' \<and>
         SaveComboListToFile cl' \<in> set (drop (length (events fr)) (events fr'))"
    by (simp add: saveAndReport_comboList saveAndReport_events logEvent_def)
next
  assume h: "getSelectedComboIndexes fr = [index] \<and>
    dlgExec env (comboList fr ! nat index) = (Accepted, ce)"
  then have "onActionEditCombo env fr =
     Inr (saveAndReport env
            ((logEvent (ComboDialogExec (comboList fr ! nat index)) fr)
               \<lparr>comboList := (comboList fr)[nat index := markEdited env ce]\<rparr>))"
    by (simp add: edit_accepted)
  then show "\<exists>fr'. onActionEditCombo env fr = Inr fr' \<and>
         comboList fr' = (comboList fr)[nat index := markEdited env ce] \<and>
         SaveComboListToFile ((comboList fr)[nat index := markEdited env ce]) \<in>
           set (drop (length (events fr)) (events fr'))"
    by (simp add: saveAndReport_comboList saveAndReport_events logEvent_def)
qed

theorem duplicate_not_saved_others_saved_witness:
  "getSelectedComboIndexes (fourCombos [2]) = [3] \<and>
   dlgExec (answering Accepted Yes True)
     (duplicate (answering Accepted Yes True) (comboList (fourCombos [2]) ! nat 3)) =
     (Accepted, ''d2!'') \<and>
   (\<exists>fr'. onActionDuplicateCombo (answering Accepted Yes True) (fourCombos [2]) = Inr fr' \<and>
      comboList fr' = [''a'', ''b'', ''c'', ''d'', ''d2!''] \<and>
      events fr' = [ComboDialogExec ''d2'']) \<and>
   SaveComboListToFile [''a'', ''b'', ''c'', ''d'', ''!''] \<in>
     set (events (onActionAddCombo (answering Accepted Yes True) (fourCombos [2]))) \<and>
   (\<exists>fr'. onActionDeleteCombo (answering Accepted Yes True) (fourCombos [1, 2]) = Inr fr' \<and>
      SaveComboListToFile [''a'', ''c''] \<in> set (events fr')) \<and>
   (\<exists>fr'. onActionEditCombo (answering Accepted Yes True) (fourCombos [2]) = Inr fr' \<and>
      SaveComboListToFile [''a'', ''b'', ''c'', ''d!''] \<in> set (events fr'))"
proof -
  let ?env = "answering Accepted Yes True"
  have c: "comboList (fourCombos [1, 2]) = [''a'', ''b'', ''c'', ''d'']"
    "comboList (fourCombos [2]) = [''a'', ''b'', ''c'', ''d'']"
    "events (fourCombos [1, 2]) = []" "events (fourCombos [2]) = []"
    "selectedRows (fourCombos [1, 2]) \<noteq> []"
    by (simp_all add: fourCombos_def)
  have e: "create ?env = []"
    "\<And>c. dlgExec ?env c = (Accepted, c @ ''!'')"
    "\<And>c. duplicate ?env c = c @ ''2''"
    "\<And>t x. question ?env t x = Yes"
    "\<And>c. markEdited ?env c = c"
    by (simp_all add: answering_def)
  have one: "(\<exists>fr'. onActionDuplicateCombo ?env (fourCombos [2]) = Inr fr' \<and>
      comboList fr' = [''a'', ''b'', ''c'', ''d'', ''d2!''] \<and>
      events fr' = [ComboDialogExec ''d2'']) \<and>
    SaveComboListToFile [''a'', ''b'', ''c'', ''d'', ''!''] \<in>
      set (events (onActionAddCombo ?env (fourCombos [2]))) \<and>
    (\<exists>fr'. onActionEditCombo ?env (fourCombos [2]) = Inr fr' \<and>
      SaveComboListToFile [''a'', ''b'', ''c'', ''d!''] \<in> set (events fr'))"
    using duplicate_not_saved_others_saved
      [of "fourCombos [2]" 3 ?env "''d2!''" "''!''" "[]" "''d!''"] fourCombos_row2
    by (auto simp: c e)
  have two: "\<exists>fr'. onActionDeleteCombo ?env (fourCombos [1, 2]) = Inr fr' \<and>
      SaveComboListToFile [''a'', ''c''] \<in> set (events fr')"
    using duplicate_not_saved_others_saved
      [of "fourCombos [1, 2]" 1 ?env "''b2!''" "''!''" "[''a'', ''c'']" "''b!''"]
      fourCombos_sorted_erase
    by (auto simp: c e)
  show ?thesis using one two fourCombos_row2 by (simp add: c e)
qed

text \<open>
  Claim C7. Whatever the store held, after \<open>reset\<close> the preference PlaySoundOnCombo is true
  and AutoStartAtLogin is false, and the entries Geometry and AppExePath are what they were,
  as are the values their getters return.
\<close>

theorem reset_restores_defaults:
  "getPlaySoundOnCombo (reset pm) = True \<and>
   getAutoStartAtLogin (reset pm) = False \<and>
   settings (reset pm) kKeyPlaySoundOnCombo = Some (VBool True) \<and>
   settings (reset pm) kKeyAutoStartAtLogin = Some (VBool False) \<and>
   settings (reset pm) kKeyGeometry = settings pm kKeyGeometry \<and>
   settings (reset pm) kKeyAppExePath = settings pm kKeyAppExePath \<and>
   mainWindowGeometry (reset pm) = mainWindowGeometry pm \<and>
   getInstalledApplicationPath fromNativeSeparators (reset pm) =
     getInstalledApplicationPath fromNativeSeparators pm"
  using keys_distinct
  by (simp add: settings_reset getPlaySoundOnCombo_def getAutoStartAtLogin_def valueOr_def
        mainWindowGeometry_def getInstalledApplicationPath_def contains_def)

theorem reset_restores_defaults_witness:
  "getPlaySoundOnCombo usedPreferences = False \<and>
   getAutoStartAtLogin usedPreferences = True \<and>
   getPlaySoundOnCombo (reset usedPreferences) = True \<and>
   getAutoStartAtLogin (reset usedPreferences) = False \<and>
   settings (reset usedPreferences) kKeyGeometry = Some (VByteArray ''geometry'') \<and>
   mainWindowGeometry (reset usedPreferences) = ''geometry'' \<and>
   getInstalledApplicationPath fromNativeSeparatorsWindows (reset usedPreferences) =
     ''C:/Beeftext/Beeftext.exe''"
proof -
  have a: "getPlaySoundOnCombo usedPreferences = False"
    "getAutoStartAtLogin usedPreferences = True"
    using keys_distinct
    by (simp_all add: usedPreferences_def getPlaySoundOnCombo_def getAutoStartAtLogin_def
          valueOr_def)
  have b: "settings usedPreferences kKeyGeometry = Some (VByteArray ''geometry'')"
    "mainWindowGeometry usedPreferences = ''geometry''"
    using keys_distinct by (simp_all add: usedPreferences_def mainWindowGeometry_def valueOr_def)
  have c: "getInstalledApplicationPath fromNativeSeparatorsWindows usedPreferences =
      ''C:/Beeftext/Beeftext.exe''"
    using keys_distinct
    by (simp add: usedPreferences_def getInstalledApplicationPath_def contains_def valueOr_def
          fromNativeSeparatorsWindows_def)
  show ?thesis
    using reset_restores_defaults [of usedPreferences fromNativeSeparatorsWindows] a b c
    by simp
qed

text \<open>
  Claim C8. Where the key of a boolean preference is not set, as in a fresh store, its getter
  returns the default: false for AutoStartAtLogin, true for PlaySoundOnCombo. The getters are
  total, there is no error to return.
\<close>

theorem unset_keys_give_defaults:
  "(settings pm kKeyAutoStartAtLogin = None \<longrightarrow> getAutoStartAtLogin pm = False) \<and>
   (settings pm kKeyPlaySoundOnCombo = None \<longrightarrow> getPlaySoundOnCombo pm = True)"
  by (simp add: getAutoStartAtLogin_def getPlaySoundOnCombo_def valueOr_def
        kDefaultValuePlaySoundOnCombo_def kDefaultvalueAutoStartAtLogin_def)

theorem unset_keys_give_defaults_witness:
  "settings freshPreferences = Map.empty \<and>
   getAutoStartAtLogin freshPreferences = False \<and>
   getPlaySoundOnCombo freshPreferences = True"
  using unset_keys_give_defaults [of freshPreferences]
  by (simp add: freshPreferences_def)

text \<open>
  Claim C9. \<open>getInstalledApplicationPath\<close> returns the empty string when the key AppExePath
  is not set; when it is set, it returns the stored value as a string, passed through the
  conversion from native separators. With the conversion of Windows the result is the stored
  path with every backslash replaced by a forward slash.
\<close>

theorem installed_application_path:
  "(settings pm kKeyAppExePath = None \<longrightarrow>
      getInstalledApplicationPath fromNativeSeparators pm = []) \<and>
   (settings pm kKeyAppExePath = Some v \<longrightarrow>
      getInstalledApplicationPath fromNativeSeparators pm = fromNativeSeparators (toString v)) \<and>
   (settings pm kKeyAppExePath = Some (VString path) \<longrightarrow>
      getInstalledApplicationPath fromNativeSeparatorsWindows pm =
        map (\<lambda>c. if c = CHR 0x5C then CHR ''/'' else c) path \<and>
      CHR 0x5C \<notin> set (getInstalledApplicationPath fromNativeSeparatorsWindows pm) \<and>
      length (getInstalledApplicationPath fromNativeSeparatorsWindows pm) = length path)"
  by (auto simp: getInstalledApplicationPath_def contains_def valueOr_def
        fromNativeSeparatorsWindows_def)

theorem installed_application_path_witness:
  "settings freshPreferences kKeyAppExePath = None \<and>
   getInstalledApplicationPath fromNativeSeparatorsWindows freshPreferences = [] \<and>
   settings usedPreferences kKeyAppExePath =
     Some (VString (''C:'' @ [CHR 0x5C] @ ''Beeftext'' @ [CHR 0x5C] @ ''Beeftext.exe'')) \<and>
   getInstalledApplicationPath fromNativeSeparatorsWindows usedPreferences =
     ''C:/Beeftext/Beeftext.exe''"
proof -
  have a: "settings freshPreferences kKeyAppExePath = None"
    by (simp add: freshPreferences_def)
  have b: "settings usedPreferences kKeyAppExePath =
     Some (VString (''C:'' @ [CHR 0x5C] @ ''Beeftext'' @ [CHR 0x5C] @ ''Beeftext.exe''))"
    using keys_distinct by (simp add: usedPreferences_def)
  have "getInstalledApplicationPath fromNativeSeparatorsWindows freshPreferences = []"
    using installed_application_path [of freshPreferences fromNativeSeparatorsWindows] a
    by simp
  moreover have "getInstalledApplicationPath fromNativeSeparatorsWindows usedPreferences =
     ''C:/Beeftext/Beeftext.exe''"
    using installed_application_path
      [of usedPreferences fromNativeSeparatorsWindows
          "VString (''C:'' @ [CHR 0x5C] @ ''Beeftext'' @ [CHR 0x5C] @ ''Beeftext.exe'')"
          "''C:'' @ [CHR 0x5C] @ ''Beeftext'' @ [CHR 0x5C] @ ''Beeftext.exe''"] b
    by (simp add: fromNativeSeparatorsWindows_def)
  ultimately show ?thesis using a b by simp
qed

text \<open>
  Claim C10. Delete checks its guard on the number of selected display rows, and erases at
  the filtered source indexes. In a state where some row is selected and every selected row
  maps outside the list, the list of source indexes is empty; delete passes its guard, asks
  for confirmation and, confirmed, erases nothing and still saves, while duplicate and edit,
  whose guard is on the list of source indexes, do nothing at all.
\<close>

theorem delete_guard_counts_display_rows:
  assumes "selectedRows fr \<noteq> []"
    and "\<forall>r \<in> set (selectedRows fr).
           \<not> (0 \<le> mapToSourceRow fr r \<and> mapToSourceRow fr r < int (length (comboList fr)))"
    and "question env ''Delete Combo?'' (deleteQuestion (getSelectedComboCount fr)) = Yes"
  shows "getSelectedComboCount fr \<ge> 1 \<and>
         getSelectedComboIndexes fr = [] \<and>
         (\<exists>fr'. onActionDeleteCombo env fr = Inr fr' \<and>
            comboList fr' = comboList fr \<and>
            events fr' =
              events fr @
                Question ''Delete Combo?'' (deleteQuestion (getSelectedComboCount fr)) #
                SaveComboListToFile (comboList fr) #
                (if fst (saveComboListToFile env (comboList fr)) then []
                 else [Critical ''Error'' (snd (saveComboListToFile env (comboList fr)))])) \<and>
         onActionDuplicateCombo env fr = Inr fr \<and>
         onActionEditCombo env fr = Inr fr"
proof -
  have n: "getSelectedComboCount fr \<ge> 1"
    using assms(1) by (cases "selectedRows fr") (simp_all add: getSelectedComboCount_def)
  have ix: "getSelectedComboIndexes fr = []"
    using assms(2) by (simp add: getSelectedComboIndexes_filter filter_empty_conv)
  have "eraseEach (std_sort (\<lambda>first second. first > second) (getSelectedComboIndexes fr))
      (comboList fr) = Inr (comboList fr)"
    by (simp add: ix std_sort_def)
  then have "onActionDeleteCombo env fr =
     Inr (saveAndReport env
            ((logEvent (Question ''Delete Combo?'' (deleteQuestion (getSelectedComboCount fr))) fr)
               \<lparr>comboList := comboList fr\<rparr>))"
    using assms(1) assms(3) by (simp add: delete_confirmed)
  then have d: "\<exists>fr'. onActionDeleteCombo env fr = Inr fr' \<and>
            comboList fr' = comboList fr \<and>
            events fr' =
              events fr @
                Question ''Delete Combo?'' (deleteQuestion (getSelectedComboCount fr)) #
                SaveComboListToFile (comboList fr) #
                (if fst (saveComboListToFile env (comboList fr)) then []
                 else [Critical ''Error'' (snd (saveComboListToFile env (comboList fr)))])"
    by (simp add: saveAndReport_comboList saveAndReport_events logEvent_def)
  have "onActionDuplicateCombo env fr = Inr fr" "onActionEditCombo env fr = Inr fr"
    by (simp_all add: ix duplicate_not_single edit_not_single)
  with n ix d show ?thesis by simp
qed

theorem delete_guard_counts_display_rows_witness:
  "selectedRows (fourCombos [0, 3]) = [0, 3] \<and>
   map (mapToSourceRow (fourCombos [0, 3])) (selectedRows (fourCombos [0, 3])) = [-1, 5] \<and>
   length (comboList (fourCombos [0, 3])) = 4 \<and>
   getSelectedComboCount (fourCombos [0, 3]) = 2 \<and>
   getSelectedComboIndexes (fourCombos [0, 3]) = [] \<and>
   (\<exists>fr'. onActionDeleteCombo (answering Accepted Yes True) (fourCombos [0, 3]) = Inr fr' \<and>
      comboList fr' = [''a'', ''b'', ''c'', ''d''] \<and>
      events fr' =
        [Question ''Delete Combo?'' ''Are you sure you want to delete the selected combos?'',
         SaveComboListToFile [''a'', ''b'', ''c'', ''d'']]) \<and>
   onActionDuplicateCombo (answering Accepted Yes True) (fourCombos [0, 3]) =
     Inr (fourCombos [0, 3]) \<and>
   onActionEditCombo (answering Accepted Yes True) (fourCombos [0, 3]) =
     Inr (fourCombos [0, 3])"
proof -
  let ?env = "answering Accepted Yes True"
  have c: "comboList (fourCombos [0, 3]) = [''a'', ''b'', ''c'', ''d'']"
    "events (fourCombos [0, 3]) = []" "selectedRows (fourCombos [0, 3]) = [0, 3]"
    "mapToSourceRow (fourCombos [0, 3]) = (\<lambda>r. 2 * r - 1)"
    by (simp_all add: fourCombos_def)
  have q: "getSelectedComboCount (fourCombos [0, 3]) = 2"
    "deleteQuestion 2 = ''Are you sure you want to delete the selected combos?''"
    by (simp_all add: deleteQuestion_def getSelectedComboCount_def c)
  have e: "\<And>t x. question ?env t x = Yes" "\<And>cl. saveComboListToFile ?env cl = (True, [])"
    by (simp_all add: answering_def)
  have a: "selectedRows (fourCombos [0, 3]) \<noteq> []" by (simp add: c)
  have b: "\<forall>r \<in> set (selectedRows (fourCombos [0, 3])).
           \<not> (0 \<le> mapToSourceRow (fourCombos [0, 3]) r \<and>
              mapToSourceRow (fourCombos [0, 3]) r < int (length (comboList (fourCombos [0, 3]))))"
    by (simp add: c)
  have y: "question ?env ''Delete Combo?''
      (deleteQuestion (getSelectedComboCount (fourCombos [0, 3]))) = Yes"
    by (simp add: e)
  show ?thesis
    using delete_guard_counts_display_rows [OF a b y]
    by (simp add: c q e)
qed

end
